theory Spec2Isabelle
  imports Complex_Main "HOL-Library.Word"
begin

section \<open>Values of the host language\<close>

text \<open>
  The module \<^verbatim>\<open>src/_terminal-utils.ts\<close> is embedded function by function.

  \<^item> A string is its sequence of UTF-16 code units, and no string is longer than the
    engine allows (\<open>MAX_STRING_LENGTH\<close>). An ASCII literal of the source is written
    \<open>ascii ''...''\<close>; the two block glyphs are given by their code units.
  \<^item> A \<^verbatim>\<open>number\<close> is an IEEE double: a finite one is given by its rational value, and
    \<open>PosInf\<close>, \<open>NegInf\<close> and \<open>NaN\<close> are the others. The sign of zero is not kept: no
    operation of this module tells the two zeros apart. The arguments of the functions
    are finite doubles, each given by its rational value; what they compute need not be
    finite.
  \<^item> A property that may be \<^verbatim>\<open>undefined\<close> is an \<open>option\<close>.
  \<^item> A thrown exception is the left injection of a sum.
\<close>

type_synonym jstring = "16 word list"

definition ascii :: "string \<Rightarrow> jstring" where
  "ascii s = map (\<lambda>c. of_nat (of_char c)) s"

datatype error = RangeError

text \<open>Sequencing of two steps, the first of which may throw.\<close>

definition and_then :: "error + 'a \<Rightarrow> ('a \<Rightarrow> error + 'b) \<Rightarrow> error + 'b" where
  "and_then r f = (case r of Inl e \<Rightarrow> Inl e | Inr x \<Rightarrow> f x)"

subsection \<open>Doubles\<close>

datatype number = Finite rat | PosInf | NegInf | NaN

definition pow2 :: "int \<Rightarrow> rat" where
  "pow2 k = (if 0 \<le> k then 2 ^ nat k else 1 / 2 ^ nat (- k))"

text \<open>The number of binary digits of a natural number.\<close>

fun bit_length :: "nat \<Rightarrow> nat" where
  "bit_length n = (if n = 0 then 0 else Suc (bit_length (n div 2)))"

declare bit_length.simps [simp del]

text \<open>
  The binary exponent of a rational other than zero: the integer \<open>e\<close> with
  \<open>pow2 e \<le> \<bar>x\<bar> < pow2 (e + 1)\<close>.
\<close>

definition binary_exponent :: "rat \<Rightarrow> int" where
  "binary_exponent x =
     (if 1 \<le> \<bar>x\<bar> then int (bit_length (nat \<lfloor>\<bar>x\<bar>\<rfloor>)) - 1
      else
        (let k = int (bit_length (nat \<lfloor>1 / \<bar>x\<bar>\<rfloor>)) - 1
         in if \<bar>x\<bar> * pow2 k = 1 then - k else - k - 1))"

text \<open>The nearest integer, a tie going to the even one.\<close>

definition round_half_even :: "rat \<Rightarrow> int" where
  "round_half_even r =
     (let f = \<lfloor>r\<rfloor>; d = r - of_int f
      in if d < 1 / 2 then f
         else if 1 / 2 < d then f + 1
         else if even f then f else f + 1)"

text \<open>
  The rounding of an exact result to a double (round to nearest, ties to even): the
  result is a multiple of the spacing \<open>pow2 (e - 52)\<close> of the doubles around it, where the
  exponent \<open>e\<close> is at least \<open>- 1022\<close> (below that the doubles are subnormal), and a
  result of magnitude \<open>pow2 1024\<close> or more is infinite.
\<close>

definition fl :: "rat \<Rightarrow> number" where
  "fl x =
     (if x = 0 then Finite 0
      else
        (let e = max (binary_exponent x) (- 1022);
             q = pow2 (e - 52);
             y = of_int (round_half_even (x / q)) * q
         in if pow2 1024 \<le> y then PosInf
            else if y \<le> - pow2 1024 then NegInf
            else Finite y))"

text \<open>
  The arithmetic of the module. Its divisors are finite and positive (\<^verbatim>\<open>max\<close> after
  the test \<^verbatim>\<open>max > 0\<close>, and \<^verbatim>\<open>100\<close>), and one operand of every product, difference,
  minimum and comparison is finite, so these operations take that operand as a rational.
\<close>

definition divide_by :: "number \<Rightarrow> rat \<Rightarrow> number" where
  "divide_by a d =
     (case a of Finite x \<Rightarrow> fl (x / d) | PosInf \<Rightarrow> PosInf | NegInf \<Rightarrow> NegInf | NaN \<Rightarrow> NaN)"

definition multiply_by :: "number \<Rightarrow> rat \<Rightarrow> number" where
  "multiply_by a w =
     (case a of
        Finite x \<Rightarrow> fl (x * w)
      | PosInf \<Rightarrow> (if w = 0 then NaN else if 0 < w then PosInf else NegInf)
      | NegInf \<Rightarrow> (if w = 0 then NaN else if 0 < w then NegInf else PosInf)
      | NaN \<Rightarrow> NaN)"

definition minus_from :: "rat \<Rightarrow> number \<Rightarrow> number" where
  "minus_from w b =
     (case b of Finite y \<Rightarrow> fl (w - y) | PosInf \<Rightarrow> NegInf | NegInf \<Rightarrow> PosInf | NaN \<Rightarrow> NaN)"

text \<open>\<^verbatim>\<open>Math.min(c, b)\<close> for a finite \<open>c\<close>.\<close>

definition Math_min :: "rat \<Rightarrow> number \<Rightarrow> number" where
  "Math_min c b =
     (case b of Finite y \<Rightarrow> Finite (min c y) | PosInf \<Rightarrow> Finite c | NegInf \<Rightarrow> NegInf
      | NaN \<Rightarrow> NaN)"

text \<open>\<^verbatim>\<open>a >= c\<close> for a finite \<open>c\<close>: false for NaN.\<close>

definition at_least :: "number \<Rightarrow> rat \<Rightarrow> bool" where
  "at_least a c = (case a of Finite x \<Rightarrow> c \<le> x | PosInf \<Rightarrow> True | NegInf \<Rightarrow> False | NaN \<Rightarrow> False)"

text \<open>
  \<^verbatim>\<open>Math.round\<close>: the nearest integer, a tie going upwards. The standard defines it on
  the exact value of its argument, with no intermediate rounding.
\<close>

definition Math_round :: "number \<Rightarrow> number" where
  "Math_round a =
     (case a of Finite x \<Rightarrow> Finite (of_int \<lfloor>x + 1 / 2\<rfloor>) | PosInf \<Rightarrow> PosInf
      | NegInf \<Rightarrow> NegInf | NaN \<Rightarrow> NaN)"

subsection \<open>Strings\<close>

text \<open>
  The longest string of the engine: Node runs on V8, whose limit on 64-bit platforms is
  \<open>2 ^ 29 - 24\<close> code units (\<^verbatim>\<open>buffer.constants.MAX_STRING_LENGTH\<close>). A concatenation
  whose result would be longer throws a RangeError.
\<close>

definition MAX_STRING_LENGTH :: nat where
  "MAX_STRING_LENGTH = 2 ^ 29 - 24"

definition js_concat :: "jstring \<Rightarrow> jstring \<Rightarrow> error + jstring" where
  "js_concat a b =
     (if MAX_STRING_LENGTH < length a + length b then Inl RangeError else Inr (a @ b))"

text \<open>
  \<^verbatim>\<open>ToIntegerOrInfinity\<close> of the language standard, on finite numbers: truncation
  towards zero.
\<close>

definition ToIntegerOrInfinity :: "rat \<Rightarrow> int" where
  "ToIntegerOrInfinity x = (if x < 0 then - \<lfloor>- x\<rfloor> else \<lfloor>x\<rfloor>)"

text \<open>
  \<^verbatim>\<open>String.prototype.repeat(count)\<close>. The count is converted to an integer: NaN to
  zero, a finite number by truncation. A negative or infinite count throws a RangeError,
  and so does a result longer than the longest string.
\<close>

definition repeat_count :: "number \<Rightarrow> nat" where
  "repeat_count count =
     (case count of Finite c \<Rightarrow> nat (ToIntegerOrInfinity c) | PosInf \<Rightarrow> 0 | NegInf \<Rightarrow> 0
      | NaN \<Rightarrow> 0)"

definition String_repeat :: "jstring \<Rightarrow> number \<Rightarrow> error + jstring" where
  "String_repeat s count =
     (case count of
        NaN \<Rightarrow> Inr []
      | PosInf \<Rightarrow> Inl RangeError
      | NegInf \<Rightarrow> Inl RangeError
      | Finite c \<Rightarrow>
          (let n = ToIntegerOrInfinity c
           in if n < 0 then Inl RangeError
              else if MAX_STRING_LENGTH < length s * nat n then Inl RangeError
              else Inr (concat (replicate (nat n) s))))"

text \<open>The decimal digits of a natural number, most significant first.\<close>

fun decimal_digits :: "nat \<Rightarrow> jstring" where
  "decimal_digits n =
     (if n < 10 then [of_nat (48 + n)]
      else decimal_digits (n div 10) @ [of_nat (48 + n mod 10)])"

declare decimal_digits.simps [simp del]

text \<open>
  \<^verbatim>\<open>Number::toString\<close> of a finite number, as a template literal applies it. An integer
  of magnitude at most \<open>2 ^ 53\<close> prints as its decimal digits. For every other number
  the standard prints the shortest digit string that reads back as the same double:
  that part is the parameter \<open>shortest\<close>.
\<close>

definition Number_toString :: "(rat \<Rightarrow> jstring) \<Rightarrow> rat \<Rightarrow> jstring" where
  "Number_toString shortest x =
     (if of_int \<lfloor>x\<rfloor> = x \<and> \<bar>x\<bar> \<le> 2 ^ 53
      then (if x < 0 then ascii ''-'' else []) @ decimal_digits (nat \<bar>\<lfloor>x\<rfloor>\<bar>)
      else shortest x)"

text \<open>
  \<^verbatim>\<open>Number.prototype.toFixed(f)\<close> for \<open>f \<le> 100\<close>, following the steps of the standard.
  A number that is not finite prints as its name. Of a finite one the sign is split off,
  \<open>n\<close> is the integer nearest to the exact \<open>x * 10 ^ f\<close> (the larger one at a tie), its
  digits are padded with zeros to \<open>f + 1\<close> places, and the point goes before the last
  \<open>f\<close> digits.
\<close>

definition Number_toFixed :: "(rat \<Rightarrow> jstring) \<Rightarrow> number \<Rightarrow> nat \<Rightarrow> jstring" where
  "Number_toFixed shortest a f =
     (case a of
        NaN \<Rightarrow> ascii ''NaN''
      | PosInf \<Rightarrow> ascii ''Infinity''
      | NegInf \<Rightarrow> ascii ''-Infinity''
      | Finite x0 \<Rightarrow>
          (let s = (if x0 < 0 then ascii ''-'' else []);
               x = (if x0 < 0 then - x0 else x0)
           in if x \<ge> 10 ^ 21 then s @ Number_toString shortest x
              else
                (let n = nat \<lfloor>x * 10 ^ f + 1 / 2\<rfloor>;
                     m0 = decimal_digits n;
                     m = (if f \<noteq> 0 \<and> length m0 \<le> f
                          then replicate (f + 1 - length m0) (of_nat 48) @ m0 else m0);
                     k = length m
                 in if f \<noteq> 0 then s @ take (k - f) m @ ascii ''.'' @ drop (k - f) m
                    else s @ m)))"

section \<open>Escape sequences\<close>

text \<open>
  The package \<^verbatim>\<open>ansi-escapes\<close> is a dependency, not code of this module: its
  sequences and sequence builders are a parameter of the embedding.
\<close>

record ansiEscapes =
  cursorHide :: jstring
  cursorShow :: jstring
  clearScreen :: jstring
  eraseLine :: jstring
  cursorTo :: "rat \<Rightarrow> rat option \<Rightarrow> jstring"
  cursorUp :: "rat \<Rightarrow> jstring"
  cursorDown :: "rat \<Rightarrow> jstring"

record TERMINAL_CONTROL_table =
  HIDE_CURSOR :: jstring
  SHOW_CURSOR :: jstring
  CLEAR_SCREEN :: jstring
  CLEAR_LINE :: jstring
  MOVE_TO_TOP :: jstring
  MOVE_UP :: "rat \<Rightarrow> jstring"
  MOVE_DOWN :: "rat \<Rightarrow> jstring"
  MOVE_TO_COLUMN :: "rat \<Rightarrow> jstring"

definition TERMINAL_CONTROL :: "ansiEscapes \<Rightarrow> TERMINAL_CONTROL_table" where
  "TERMINAL_CONTROL ae =
     \<lparr> HIDE_CURSOR = cursorHide ae,
       SHOW_CURSOR = cursorShow ae,
       CLEAR_SCREEN = clearScreen ae,
       CLEAR_LINE = eraseLine ae,
       MOVE_TO_TOP = cursorTo ae 0 (Some 0),
       MOVE_UP = (\<lambda>n. cursorUp ae n),
       MOVE_DOWN = (\<lambda>n. cursorDown ae n),
       MOVE_TO_COLUMN = (\<lambda>n. cursorTo ae (n - 1) None) \<rparr>"

section \<open>The terminal manager\<close>

text \<open>
  The output sink (\<^verbatim>\<open>WriteStream\<close>): its TTY flag, its reported size, and the chunks
  written to it so far, oldest first. \<^verbatim>\<open>stream.write(text)\<close> appends one chunk.
\<close>

record WriteStream =
  isTTY :: "bool option"
  columns :: "nat option"
  rows :: "nat option"
  written :: "jstring list"

definition stream_write :: "WriteStream \<Rightarrow> jstring \<Rightarrow> WriteStream" where
  "stream_write s text = s\<lparr>written := written s @ [text]\<rparr>"

text \<open>The truth value of \<^verbatim>\<open>stream.isTTY\<close> in a condition: \<^verbatim>\<open>undefined\<close> is false.\<close>

definition truthy :: "bool option \<Rightarrow> bool" where
  "truthy b = (case b of None \<Rightarrow> False | Some v \<Rightarrow> v)"

text \<open>
  The fields of the class. \<^verbatim>\<open>originalWrite\<close> is assigned by the constructor and read
  nowhere, so it is left out. The methods keep their names, but for \<^verbatim>\<open>clearScreen\<close>
  and \<^verbatim>\<open>write\<close>, which are \<open>clearScreen_op\<close> and \<open>write_op\<close> here (the first name
  is the field of the escape table, the second a keyword), and the getters, which are
  \<open>get_width\<close>, \<open>get_height\<close> and \<open>get_isTTY\<close>.
\<close>

record TerminalManager =
  stream :: WriteStream
  cursorHidden :: bool

definition new_TerminalManager :: "WriteStream \<Rightarrow> TerminalManager" where
  "new_TerminalManager s = \<lparr> stream = s, cursorHidden = False \<rparr>"

definition hideCursor :: "ansiEscapes \<Rightarrow> TerminalManager \<Rightarrow> TerminalManager" where
  "hideCursor ae m =
     (if \<not> cursorHidden m \<and> truthy (isTTY (stream m))
      then m\<lparr> stream := stream_write (stream m) (HIDE_CURSOR (TERMINAL_CONTROL ae)),
              cursorHidden := True \<rparr>
      else m)"

definition showCursor :: "ansiEscapes \<Rightarrow> TerminalManager \<Rightarrow> TerminalManager" where
  "showCursor ae m =
     (if cursorHidden m \<and> truthy (isTTY (stream m))
      then m\<lparr> stream := stream_write (stream m) (SHOW_CURSOR (TERMINAL_CONTROL ae)),
              cursorHidden := False \<rparr>
      else m)"

definition clearScreen_op :: "ansiEscapes \<Rightarrow> TerminalManager \<Rightarrow> TerminalManager" where
  "clearScreen_op ae m =
     (if truthy (isTTY (stream m))
      then m\<lparr> stream :=
                stream_write (stream_write (stream m) (CLEAR_SCREEN (TERMINAL_CONTROL ae)))
                  (MOVE_TO_TOP (TERMINAL_CONTROL ae)) \<rparr>
      else m)"

definition clearLine :: "ansiEscapes \<Rightarrow> TerminalManager \<Rightarrow> TerminalManager" where
  "clearLine ae m =
     (if truthy (isTTY (stream m))
      then m\<lparr> stream := stream_write (stream m) (CLEAR_LINE (TERMINAL_CONTROL ae)) \<rparr>
      else m)"

definition moveUp :: "ansiEscapes \<Rightarrow> rat \<Rightarrow> TerminalManager \<Rightarrow> TerminalManager" where
  "moveUp ae lines m =
     (if truthy (isTTY (stream m)) \<and> lines > 0
      then m\<lparr> stream := stream_write (stream m) (MOVE_UP (TERMINAL_CONTROL ae) lines) \<rparr>
      else m)"

definition moveToLineStart :: "ansiEscapes \<Rightarrow> TerminalManager \<Rightarrow> TerminalManager" where
  "moveToLineStart ae m =
     (if truthy (isTTY (stream m))
      then m\<lparr> stream := stream_write (stream m) (MOVE_TO_COLUMN (TERMINAL_CONTROL ae) 1) \<rparr>
      else m)"

definition write_op :: "jstring \<Rightarrow> TerminalManager \<Rightarrow> TerminalManager" where
  "write_op text m = m\<lparr> stream := stream_write (stream m) text \<rparr>"

definition get_width :: "TerminalManager \<Rightarrow> nat" where
  "get_width m = (case columns (stream m) of None \<Rightarrow> 80 | Some c \<Rightarrow> if c = 0 then 80 else c)"

definition get_height :: "TerminalManager \<Rightarrow> nat" where
  "get_height m = (case rows (stream m) of None \<Rightarrow> 24 | Some r \<Rightarrow> if r = 0 then 24 else r)"

definition get_isTTY :: "TerminalManager \<Rightarrow> bool" where
  "get_isTTY m = (case isTTY (stream m) of None \<Rightarrow> False | Some b \<Rightarrow> b)"

definition cleanup :: "ansiEscapes \<Rightarrow> TerminalManager \<Rightarrow> TerminalManager" where
  "cleanup ae m = showCursor ae m"

text \<open>A call of a method that returns nothing, and a sequence of such calls in order.\<close>

datatype call =
  HideCursor | ShowCursor | ClearScreen | ClearLine | MoveUp rat | MoveToLineStart
  | Write jstring | Cleanup

fun exec :: "ansiEscapes \<Rightarrow> call \<Rightarrow> TerminalManager \<Rightarrow> TerminalManager" where
  "exec ae HideCursor m = hideCursor ae m"
| "exec ae ShowCursor m = showCursor ae m"
| "exec ae ClearScreen m = clearScreen_op ae m"
| "exec ae ClearLine m = clearLine ae m"
| "exec ae (MoveUp n) m = moveUp ae n m"
| "exec ae MoveToLineStart m = moveToLineStart ae m"
| "exec ae (Write text) m = write_op text m"
| "exec ae Cleanup m = cleanup ae m"

fun run :: "ansiEscapes \<Rightarrow> call list \<Rightarrow> TerminalManager \<Rightarrow> TerminalManager" where
  "run ae [] m = m"
| "run ae (c # cs) m = run ae cs (exec ae c m)"

text \<open>The chunks a manager has written between two of its states.\<close>

definition emitted :: "TerminalManager \<Rightarrow> TerminalManager \<Rightarrow> jstring list" where
  "emitted m m' = drop (length (written (stream m))) (written (stream m'))"

section \<open>The progress bar\<close>

record ColorOptions =
  low :: "jstring option"
  medium :: "jstring option"
  high :: "jstring option"
  critical :: "jstring option"

record ProgressBarOptions =
  showPercentage :: "bool option"
  showValues :: "bool option"
  fillChar :: "jstring option"
  emptyChar :: "jstring option"
  leftBracket :: "jstring option"
  rightBracket :: "jstring option"
  colors :: "ColorOptions option"

text \<open>The empty objects \<^verbatim>\<open>{}\<close> that the parameter and \<^verbatim>\<open>colors\<close> default to.\<close>

definition no_colors :: ColorOptions where
  "no_colors = \<lparr> low = None, medium = None, high = None, critical = None \<rparr>"

definition no_options :: ProgressBarOptions where
  "no_options =
     \<lparr> showPercentage = None, showValues = None, fillChar = None, emptyChar = None,
       leftBracket = None, rightBracket = None, colors = None \<rparr>"

definition FULL_BLOCK :: jstring where
  "FULL_BLOCK = [0x2588]"

definition LIGHT_SHADE :: jstring where
  "LIGHT_SHADE = [0x2591]"

definition RESET_COLOR :: jstring where
  "RESET_COLOR = [0x1B] @ ascii ''[0m''"

text \<open>A destructuring default: it applies when the property is \<^verbatim>\<open>undefined\<close>.\<close>

definition or_default :: "'a option \<Rightarrow> 'a \<Rightarrow> 'a" where
  "or_default v d = (case v of None \<Rightarrow> d | Some x \<Rightarrow> x)"

text \<open>Line 179 of the source: the percentage.\<close>

definition percentage_of :: "rat \<Rightarrow> rat \<Rightarrow> number" where
  "percentage_of val mx =
     (if mx > 0 then Math_min 100 (multiply_by (divide_by (Finite val) mx) 100) else Finite 0)"

text \<open>
  Lines 184 to 196: the chain that assigns \<^verbatim>\<open>color\<close>, which starts as the empty
  string.
\<close>

definition select_color :: "ColorOptions \<Rightarrow> number \<Rightarrow> jstring" where
  "select_color cs percentage =
     (if critical cs \<noteq> None \<and> at_least percentage 90 then or_default (critical cs) []
      else if high cs \<noteq> None \<and> at_least percentage 80 then or_default (high cs) []
      else if medium cs \<noteq> None \<and> at_least percentage 50 then or_default (medium cs) []
      else if low cs \<noteq> None then or_default (low cs) []
      else [])"

text \<open>Lines 212 and 215: the two template literals.\<close>

definition percentage_label :: "(rat \<Rightarrow> jstring) \<Rightarrow> number \<Rightarrow> jstring" where
  "percentage_label shortest percentage =
     ascii '' '' @ Number_toFixed shortest percentage 1 @ ascii ''%''"

definition values_label :: "(rat \<Rightarrow> jstring) \<Rightarrow> rat \<Rightarrow> rat \<Rightarrow> jstring" where
  "values_label shortest val mx =
     ascii '' ('' @ Number_toString shortest val @ ascii ''/''
     @ Number_toString shortest mx @ ascii '')''"

text \<open>
  The function. Every \<^verbatim>\<open>bar += ...\<close> of the source is a concatenation, which throws
  when the bar outgrows the longest string.
\<close>

definition createProgressBar ::
  "(rat \<Rightarrow> jstring) \<Rightarrow> rat \<Rightarrow> rat \<Rightarrow> rat \<Rightarrow> ProgressBarOptions \<Rightarrow> error + jstring" where
  "createProgressBar shortest val mx wid opts =
     (let showP = or_default (showPercentage opts) True;
          showV = or_default (showValues opts) False;
          fillC = or_default (fillChar opts) FULL_BLOCK;
          emptyC = or_default (emptyChar opts) LIGHT_SHADE;
          leftB = or_default (leftBracket opts) (ascii ''['');
          rightB = or_default (rightBracket opts) (ascii '']'');
          cs = or_default (colors opts) no_colors;
          percentage = percentage_of val mx;
          fillWidth = Math_round (multiply_by (divide_by percentage 100) wid);
          emptyWidth = minus_from wid fillWidth;
          color = select_color cs percentage
      in and_then (if color \<noteq> [] then js_concat leftB color else Inr leftB) (\<lambda>bar1.
         and_then (String_repeat fillC fillWidth) (\<lambda>filled.
         and_then (js_concat bar1 filled) (\<lambda>bar2.
         and_then (String_repeat emptyC emptyWidth) (\<lambda>unfilled.
         and_then (js_concat bar2 unfilled) (\<lambda>bar3.
         and_then (if color \<noteq> [] then js_concat bar3 RESET_COLOR else Inr bar3) (\<lambda>bar4.
         and_then (js_concat bar4 rightB) (\<lambda>bar5.
         and_then (if showP then js_concat bar5 (percentage_label shortest percentage)
                   else Inr bar5) (\<lambda>bar6.
         if showV then js_concat bar6 (values_label shortest val mx) else Inr bar6)))))))))"

section \<open>Centred text\<close>

text \<open>
  The package \<^verbatim>\<open>string-width\<close> is a dependency as well: the display width of a
  string, in terminal columns, is the parameter \<open>stringWidth\<close>.

  The two subtractions and the halving are computed exactly here. On doubles they are
  exact as long as the width is below \<open>2 ^ 53\<close>: each result is a multiple of the spacing
  of the doubles around the width and no larger than the width (only the half of the
  smallest subnormal is rounded, and its floor is zero either way). From \<open>2 ^ 53\<close> on,
  the left run is longer than the longest string for every display width that a string
  can have, and \<^verbatim>\<open>repeat\<close> throws.
\<close>

definition centerText :: "(jstring \<Rightarrow> nat) \<Rightarrow> jstring \<Rightarrow> rat \<Rightarrow> error + jstring" where
  "centerText stringWidth text wid =
     (let textLength = stringWidth text
      in if of_nat textLength \<ge> wid then Inr text
         else
           (let leftPadding = \<lfloor>(wid - of_nat textLength) / 2\<rfloor>;
                rightPadding = wid - of_nat textLength - of_int leftPadding
            in and_then (String_repeat (ascii '' '') (Finite (of_int leftPadding))) (\<lambda>l.
               and_then (js_concat l text) (\<lambda>lt.
               and_then (String_repeat (ascii '' '') (Finite rightPadding)) (\<lambda>r.
               js_concat lt r)))))"

section \<open>Notions of the specification\<close>

text \<open>
  The specification's formula for the percentage, in its own words:
  \<^verbatim>\<open>max > 0 ? clamp(value / max * 100, 0, 100) : 0\<close>.
\<close>

definition clamp :: "rat \<Rightarrow> rat \<Rightarrow> rat \<Rightarrow> rat" where
  "clamp x lo hi = max lo (min hi x)"

definition spec_percentage :: "rat \<Rightarrow> rat \<Rightarrow> rat" where
  "spec_percentage val mx = (if mx > 0 then clamp (val / mx * 100) 0 100 else 0)"

text \<open>
  The specification's colour tiers, evaluated high to low: the first supplied tier whose
  threshold is met.
\<close>

datatype tier = Critical | High | Medium | Low

definition spec_tier :: "ColorOptions \<Rightarrow> number \<Rightarrow> tier option" where
  "spec_tier cs percentage =
     (if at_least percentage 90 \<and> critical cs \<noteq> None then Some Critical
      else if at_least percentage 80 \<and> high cs \<noteq> None then Some High
      else if at_least percentage 50 \<and> medium cs \<noteq> None then Some Medium
      else if low cs \<noteq> None then Some Low
      else None)"

fun tier_color :: "ColorOptions \<Rightarrow> tier \<Rightarrow> jstring option" where
  "tier_color cs Critical = critical cs"
| "tier_color cs High = high cs"
| "tier_color cs Medium = medium cs"
| "tier_color cs Low = low cs"

definition spec_color :: "ColorOptions \<Rightarrow> number \<Rightarrow> jstring" where
  "spec_color cs percentage =
     (case spec_tier cs percentage of
        None \<Rightarrow> []
      | Some t \<Rightarrow> or_default (tier_color cs t) [])"

text \<open>A run of space characters, the padding of centred text.\<close>

definition spaces :: "nat \<Rightarrow> jstring" where
  "spaces n = replicate n 0x20"

text \<open>
  Whether, in a log of written chunks, a hide-cursor sequence has been sent and not yet
  been matched by a show-cursor sequence.
\<close>

definition hide_outstanding :: "ansiEscapes \<Rightarrow> bool \<Rightarrow> jstring list \<Rightarrow> bool" where
  "hide_outstanding ae start chunks =
     foldl (\<lambda>pending chunk.
              if chunk = cursorHide ae then True
              else if chunk = cursorShow ae then False
              else pending)
       start chunks"

text \<open>The invariant of the cursor flag: it is set on a TTY sink only.\<close>

definition cursor_invariant :: "TerminalManager \<Rightarrow> bool" where
  "cursor_invariant m = (cursorHidden m \<longrightarrow> truthy (isTTY (stream m)))"

section \<open>Sample collaborators\<close>

text \<open>
  Concrete values for the parameters, at which the theorems below are instantiated:
  the sequences of a VT100-compatible terminal, a terminal sink, a pipe, a set of
  colours, and a display width function that reports one column whatever the string.
\<close>

definition CSI :: jstring where
  "CSI = [0x1B] @ ascii ''[''"

definition vt100 :: ansiEscapes where
  "vt100 =
     \<lparr> cursorHide = CSI @ ascii ''?25l'',
       cursorShow = CSI @ ascii ''?25h'',
       clearScreen = [0x1B] @ ascii ''c'',
       eraseLine = CSI @ ascii ''2K'',
       cursorTo = (\<lambda>x y. case y of
                      None \<Rightarrow> CSI @ Number_toString (\<lambda>_. []) (x + 1) @ ascii ''G''
                    | Some y' \<Rightarrow> CSI @ Number_toString (\<lambda>_. []) (y' + 1) @ ascii '';''
                        @ Number_toString (\<lambda>_. []) (x + 1) @ ascii ''H''),
       cursorUp = (\<lambda>n. CSI @ Number_toString (\<lambda>_. []) n @ ascii ''A''),
       cursorDown = (\<lambda>n. CSI @ Number_toString (\<lambda>_. []) n @ ascii ''B'') \<rparr>"

definition terminal :: WriteStream where
  "terminal = \<lparr> isTTY = Some True, columns = Some 120, rows = Some 40, written = [] \<rparr>"

definition pipe :: WriteStream where
  "pipe = \<lparr> isTTY = None, columns = None, rows = None, written = [] \<rparr>"

definition alert_colors :: ColorOptions where
  "alert_colors =
     \<lparr> low = Some (CSI @ ascii ''32m''), medium = Some (CSI @ ascii ''33m''),
       high = None, critical = Some (CSI @ ascii ''31m'') \<rparr>"


section \<open>Numbers and strings: auxiliary facts\<close>

lemma floor_rat_one_div:
  "\<lfloor>(1 / numeral b :: rat)\<rfloor> = 1 div numeral b"
  by (metis floor_divide_of_int_eq of_int_1 of_int_numeral)

lemma floor_rat_numeral_div:
  "\<lfloor>(numeral a / numeral b :: rat)\<rfloor> = numeral a div numeral b"
  by (metis floor_divide_of_int_eq of_int_numeral)

lemma floor_rat_neg_numeral_div:
  "\<lfloor>(- (numeral a / numeral b) :: rat)\<rfloor> = - numeral a div numeral b"
  by (metis divide_minus_left floor_divide_of_int_eq of_int_neg_numeral of_int_numeral)

lemma bit_length_0: "bit_length 0 = 0"
  by (simp add: bit_length.simps)

lemma bit_length_pos: "n \<noteq> 0 \<Longrightarrow> bit_length n = Suc (bit_length (n div 2))"
  by (subst bit_length.simps) simp

lemmas fl_eval = fl_def binary_exponent_def round_half_even_def pow2_def bit_length_0
  bit_length_pos floor_rat_one_div floor_rat_numeral_div floor_rat_neg_numeral_div Let_def

lemma decimal_digits_lt10: "n < 10 \<Longrightarrow> decimal_digits n = [of_nat (48 + n)]"
  by (simp add: decimal_digits.simps)

lemma decimal_digits_ge10:
  "\<not> n < 10 \<Longrightarrow> decimal_digits n = decimal_digits (n div 10) @ [of_nat (48 + n mod 10)]"
  by (subst decimal_digits.simps) simp

lemma concat_replicate_single: "concat (replicate n [x]) = replicate n x"
  by (induction n) simp_all

lemmas num_eval = decimal_digits_lt10 decimal_digits_ge10 ascii_def

lemma and_then_Inr: "and_then r f = Inr y \<longleftrightarrow> (\<exists>x. r = Inr x \<and> f x = Inr y)"
  by (cases r) (simp_all add: and_then_def)

lemma js_concat_Inr:
  "js_concat a b = Inr c \<longleftrightarrow> length a + length b \<le> MAX_STRING_LENGTH \<and> c = a @ b"
  by (auto simp add: js_concat_def)

lemma String_repeat_Inr:
  "String_repeat s count = Inr r \<Longrightarrow> r = concat (replicate (repeat_count count) s)"
  by (cases count) (auto simp add: String_repeat_def repeat_count_def Let_def split: if_splits)

section \<open>The progress bar: auxiliary facts\<close>

lemma select_color_spec: "select_color cs p = spec_color cs p"
  by (auto simp add: select_color_def spec_color_def spec_tier_def)

lemmas bar_eval = createProgressBar_def percentage_of_def Math_min_def multiply_by_def divide_by_def
  minus_from_def Math_round_def at_least_def select_color_def and_then_def js_concat_def
  String_repeat_def ToIntegerOrInfinity_def MAX_STRING_LENGTH_def or_default_def no_options_def
  no_colors_def percentage_label_def values_label_def Number_toFixed_def Number_toString_def
  FULL_BLOCK_def LIGHT_SHADE_def RESET_COLOR_def concat_replicate_single

text \<open>A bar that is returned is the concatenation of its parts.\<close>

lemma createProgressBar_layout:
  assumes "createProgressBar shortest val mx wid opts = Inr bar"
  shows "bar =
    or_default (leftBracket opts) (ascii ''['')
    @ select_color (or_default (colors opts) no_colors) (percentage_of val mx)
    @ concat (replicate
        (repeat_count (Math_round (multiply_by (divide_by (percentage_of val mx) 100) wid)))
        (or_default (fillChar opts) FULL_BLOCK))
    @ concat (replicate
        (repeat_count
           (minus_from wid (Math_round (multiply_by (divide_by (percentage_of val mx) 100) wid))))
        (or_default (emptyChar opts) LIGHT_SHADE))
    @ (if select_color (or_default (colors opts) no_colors) (percentage_of val mx) = []
       then [] else RESET_COLOR)
    @ or_default (rightBracket opts) (ascii '']'')
    @ (if or_default (showPercentage opts) True
       then percentage_label shortest (percentage_of val mx) else [])
    @ (if or_default (showValues opts) False then values_label shortest val mx else [])"
proof -
  let ?color = "select_color (or_default (colors opts) no_colors) (percentage_of val mx)"
  let ?fw = "Math_round (multiply_by (divide_by (percentage_of val mx) 100) wid)"
  from assms obtain bar1 filled bar2 unfilled bar3 bar4 bar5 bar6 where
    b1: "(if ?color \<noteq> [] then js_concat (or_default (leftBracket opts) (ascii ''['')) ?color
          else Inr (or_default (leftBracket opts) (ascii ''[''))) = Inr bar1"
    and f: "String_repeat (or_default (fillChar opts) FULL_BLOCK) ?fw = Inr filled"
    and b2: "js_concat bar1 filled = Inr bar2"
    and u: "String_repeat (or_default (emptyChar opts) LIGHT_SHADE) (minus_from wid ?fw)
          = Inr unfilled"
    and b3: "js_concat bar2 unfilled = Inr bar3"
    and b4: "(if ?color \<noteq> [] then js_concat bar3 RESET_COLOR else Inr bar3) = Inr bar4"
    and b5: "js_concat bar4 (or_default (rightBracket opts) (ascii '']'')) = Inr bar5"
    and b6: "(if or_default (showPercentage opts) True
          then js_concat bar5 (percentage_label shortest (percentage_of val mx))
          else Inr bar5) = Inr bar6"
    and b7: "(if or_default (showValues opts) False
          then js_concat bar6 (values_label shortest val mx) else Inr bar6) = Inr bar"
    unfolding createProgressBar_def Let_def and_then_Inr by blast
  have 1: "bar1 = or_default (leftBracket opts) (ascii ''['') @ ?color"
    using b1 by (simp add: js_concat_Inr split: if_splits)
  have 2: "bar2 = bar1 @ filled" using b2 by (simp add: js_concat_Inr)
  have 3: "bar3 = bar2 @ unfilled" using b3 by (simp add: js_concat_Inr)
  have 4: "bar4 = bar3 @ (if ?color = [] then [] else RESET_COLOR)"
    using b4 by (simp add: js_concat_Inr split: if_splits)
  have 5: "bar5 = bar4 @ or_default (rightBracket opts) (ascii '']'')"
    using b5 by (simp add: js_concat_Inr)
  have 6: "bar6 = bar5 @ (if or_default (showPercentage opts) True
       then percentage_label shortest (percentage_of val mx) else [])"
    using b6 by (simp add: js_concat_Inr split: if_splits)
  have 7: "bar = bar6 @ (if or_default (showValues opts) False
       then values_label shortest val mx else [])"
    using b7 by (simp add: js_concat_Inr split: if_splits)
  show ?thesis
    unfolding 7 6 5 4 3 2 1 String_repeat_Inr [OF f] String_repeat_Inr [OF u] by simp
qed

text \<open>
  A value above the maximum renders as the full bar, and a maximum of zero as the empty
  bar.
\<close>

lemma createProgressBar_over_max:
  "createProgressBar shortest 150 100 10 no_options
     = createProgressBar shortest 100 100 10 no_options"
  by (simp add: bar_eval fl_eval num_eval)

lemma createProgressBar_zero_max:
  "createProgressBar shortest 5 0 10 no_options
     = Inr (ascii ''['' @ replicate 10 0x2591 @ ascii ''] 0.0%'')"
  by (simp add: bar_eval fl_eval num_eval)

text \<open>
  The arithmetic is that of doubles: 23 of 80 is \<^verbatim>\<open>28.749999999999996\<close> percent and
  prints as \<^verbatim>\<open>28.7%\<close>; 1 of 6 at width 3 has the product \<^verbatim>\<open>0.4999999999999999\<close> and
  fills no cell; and the double just below \<^verbatim>\<open>0.8\<close> of 1 is exactly 80 percent.
\<close>

lemma createProgressBar_rounds_as_doubles:
  "createProgressBar shortest 23 80 10 no_options
     = Inr (ascii ''['' @ replicate 3 0x2588 @ replicate 7 0x2591 @ ascii ''] 28.7%'')
   \<and> createProgressBar shortest 1 6 3 no_options
     = Inr (ascii ''['' @ replicate 3 0x2591 @ ascii ''] 16.7%'')
   \<and> percentage_of (7205759403792793 / 2 ^ 53) 1 = Finite 80"
  by (simp add: bar_eval fl_eval num_eval)

text \<open>A bar of \<open>2 ^ 30\<close> cells is longer than the longest string.\<close>

lemma createProgressBar_too_wide:
  "createProgressBar shortest 1 1 (2 ^ 30) no_options = Inl RangeError"
  by (simp add: bar_eval fl_eval num_eval)

section \<open>The progress bar: claims\<close>

text \<open>
  C1. The claim: for every input \<open>createProgressBar\<close> returns a string and never throws,
  in particular for negative values. The source bounds the percentage from above only,
  so a negative value with a positive maximum gives a negative cell count: for the value
  \<open>- 50\<close>, the maximum \<open>100\<close> and the width \<open>10\<close> the fill count is \<open>- 5\<close>, and
  \<^verbatim>\<open>repeat\<close> throws a RangeError.
\<close>

theorem createProgressBar_throws_on_negative_value:
  "createProgressBar shortest (- 50) 100 10 no_options = Inl RangeError"
  by (simp add: bar_eval fl_eval num_eval)

text \<open>
  C2. The claim: the percentage is \<open>clamp (value / max * 100) 0 100\<close> for a positive
  maximum. The source computes \<open>min 100 (value / max * 100)\<close>: for the value \<open>- 1\<close> and the
  maximum \<open>100\<close> its percentage is \<open>- 1\<close>, where the specification's is \<open>0\<close>, and the bar
  of width \<open>10\<close> is labelled \<^verbatim>\<open>-1.0%\<close>.
\<close>

theorem percentage_not_clamped_below:
  "percentage_of (- 1) 100 = Finite (- 1)
   \<and> spec_percentage (- 1) 100 = 0
   \<and> createProgressBar shortest (- 1) 100 10 no_options
       = Inr (ascii ''['' @ replicate 10 0x2591 @ ascii ''] -1.0%'')"
  by (simp add: spec_percentage_def clamp_def bar_eval fl_eval num_eval)

text \<open>
  C6. The colour of the bar is that of the first supplied tier, from critical down to
  low, whose threshold the percentage meets: critical from 90, high from 80, medium from
  50, low always; without such a tier there is no colour. The percentage is the one the
  source computes, in doubles. Whenever a bar is returned, it is the left bracket, that
  colour, the filled and the empty cells, the reset sequence exactly when the colour is
  not the empty string, the right bracket and the labels.
\<close>

theorem createProgressBar_color:
  "select_color cs p = spec_color cs p
   \<and> (\<forall>bar. createProgressBar shortest val mx wid opts = Inr bar \<longrightarrow>
        bar =
          or_default (leftBracket opts) (ascii ''['')
          @ spec_color (or_default (colors opts) no_colors) (percentage_of val mx)
          @ concat (replicate
              (repeat_count (Math_round (multiply_by (divide_by (percentage_of val mx) 100) wid)))
              (or_default (fillChar opts) FULL_BLOCK))
          @ concat (replicate
              (repeat_count
                 (minus_from wid
                    (Math_round (multiply_by (divide_by (percentage_of val mx) 100) wid))))
              (or_default (emptyChar opts) LIGHT_SHADE))
          @ (if spec_color (or_default (colors opts) no_colors) (percentage_of val mx) = []
             then [] else RESET_COLOR)
          @ or_default (rightBracket opts) (ascii '']'')
          @ (if or_default (showPercentage opts) True
             then percentage_label shortest (percentage_of val mx) else [])
          @ (if or_default (showValues opts) False then values_label shortest val mx else []))"
  using createProgressBar_layout [of shortest val mx wid opts]
  by (simp add: select_color_spec)

theorem createProgressBar_color_witness:
  "select_color alert_colors (Finite 85) = CSI @ ascii ''33m''
   \<and> spec_tier alert_colors (Finite 85) = Some Medium
   \<and> percentage_of 85 100 = Finite 85
   \<and> createProgressBar (\<lambda>_. []) 85 100 10 (no_options\<lparr>colors := Some alert_colors\<rparr>)
       = Inr (ascii ''['' @ CSI @ ascii ''33m'' @ replicate 9 0x2588 @ replicate 1 0x2591
              @ RESET_COLOR @ ascii ''] 85.0%'')"
  using createProgressBar_color [of alert_colors "Finite 85" "\<lambda>_. []" 85 100 10
      "no_options\<lparr>colors := Some alert_colors\<rparr>"]
  by (simp add: alert_colors_def spec_color_def spec_tier_def CSI_def repeat_count_def
      bar_eval fl_eval num_eval)

text \<open>
  C7. With the default options, the value 0 of 100 at width 10 renders as the left
  bracket, ten light cells, the right bracket and \<^verbatim>\<open> 0.0%\<close>; the value 100 of 100 as ten
  full cells and \<^verbatim>\<open> 100.0%\<close>; and the value 50 of 100 with \<^verbatim>\<open>showValues\<close> as five full
  cells, five light cells and \<^verbatim>\<open> 50.0% (50/100)\<close>.
\<close>

theorem createProgressBar_examples:
  "createProgressBar shortest 0 100 10 no_options
     = Inr (ascii ''['' @ replicate 10 0x2591 @ ascii ''] 0.0%'')
   \<and> createProgressBar shortest 100 100 10 no_options
     = Inr (ascii ''['' @ replicate 10 0x2588 @ ascii ''] 100.0%'')
   \<and> createProgressBar shortest 50 100 10 (no_options\<lparr>showValues := Some True\<rparr>)
     = Inr (ascii ''['' @ replicate 5 0x2588 @ replicate 5 0x2591
            @ ascii ''] 50.0% (50/100)'')"
  by (simp add: bar_eval fl_eval num_eval)

section \<open>The terminal manager: auxiliary facts\<close>

lemmas manager_defs = hideCursor_def showCursor_def clearScreen_op_def clearLine_def moveUp_def
  moveToLineStart_def write_op_def cleanup_def stream_write_def TERMINAL_CONTROL_def

lemmas sample_defs = vt100_def CSI_def terminal_def pipe_def new_TerminalManager_def truthy_def
  ascii_def emitted_def hide_outstanding_def

lemma exec_isTTY: "isTTY (stream (exec ae c m)) = isTTY (stream m)"
  by (cases c) (simp_all add: manager_defs)

lemma run_isTTY: "isTTY (stream (run ae cs m)) = isTTY (stream m)"
  by (induction cs arbitrary: m) (simp_all add: exec_isTTY)

lemma new_cursor_invariant: "cursor_invariant (new_TerminalManager s)"
  by (simp add: cursor_invariant_def new_TerminalManager_def)

lemma exec_cursor_invariant:
  "cursor_invariant m \<Longrightarrow> cursor_invariant (exec ae c m)"
  by (cases c) (auto simp add: manager_defs cursor_invariant_def)

lemma run_cursor_invariant:
  "cursor_invariant m \<Longrightarrow> cursor_invariant (run ae cs m)"
  by (induction cs arbitrary: m) (simp_all add: exec_cursor_invariant)

lemma emitted_append:
  "written (stream m') = written (stream m) @ chunks \<Longrightarrow> emitted m m' = chunks"
  by (simp add: emitted_def)

text \<open>One hide or show call: what it writes, and the flag afterwards.\<close>

lemma cursor_call_step:
  assumes "c = HideCursor \<or> c = ShowCursor"
    and "cursorHide ae \<noteq> cursorShow ae"
    and "cursor_invariant m"
  shows "\<exists>chunks. written (stream (exec ae c m)) = written (stream m) @ chunks
           \<and> cursorHidden (exec ae c m) = hide_outstanding ae (cursorHidden m) chunks"
proof -
  from assms(1) show ?thesis
  proof
    assume "c = HideCursor"
    then show ?thesis
      by (cases "\<not> cursorHidden m \<and> truthy (isTTY (stream m))")
        (auto simp add: manager_defs hide_outstanding_def)
  next
    assume "c = ShowCursor"
    then show ?thesis
      using assms(2)
      by (cases "cursorHidden m \<and> truthy (isTTY (stream m))")
        (auto simp add: manager_defs hide_outstanding_def)
  qed
qed

text \<open>A sequence of hide and show calls: the flag follows the log of what was written.\<close>

lemma cursor_calls_run:
  assumes "set cs \<subseteq> {HideCursor, ShowCursor}"
    and "cursorHide ae \<noteq> cursorShow ae"
    and "cursor_invariant m"
  shows "\<exists>chunks. written (stream (run ae cs m)) = written (stream m) @ chunks
           \<and> cursorHidden (run ae cs m) = hide_outstanding ae (cursorHidden m) chunks"
  using assms
proof (induction cs arbitrary: m)
  case Nil
  then show ?case by (simp add: hide_outstanding_def)
next
  case (Cons c cs)
  from Cons.prems(1) have c: "c = HideCursor \<or> c = ShowCursor" by simp
  from cursor_call_step [OF c Cons.prems(2) Cons.prems(3)]
  obtain first where first:
    "written (stream (exec ae c m)) = written (stream m) @ first"
    "cursorHidden (exec ae c m) = hide_outstanding ae (cursorHidden m) first"
    by blast
  have "set cs \<subseteq> {HideCursor, ShowCursor}" using Cons.prems(1) by simp
  moreover have "cursor_invariant (exec ae c m)"
    using Cons.prems(3) by (rule exec_cursor_invariant)
  ultimately obtain rest where rest:
    "written (stream (run ae cs (exec ae c m))) = written (stream (exec ae c m)) @ rest"
    "cursorHidden (run ae cs (exec ae c m))
       = hide_outstanding ae (cursorHidden (exec ae c m)) rest"
    using Cons.IH [of "exec ae c m"] Cons.prems(2) by blast
  have "written (stream (run ae (c # cs) m)) = written (stream m) @ (first @ rest)"
    using first(1) rest(1) by simp
  moreover have "cursorHidden (run ae (c # cs) m)
      = hide_outstanding ae (cursorHidden m) (first @ rest)"
    using first(2) rest(2) by (simp add: hide_outstanding_def)
  ultimately show ?case by blast
qed

lemma cleanup_emits:
  assumes "cursor_invariant m"
  shows "\<not> cursorHidden (cleanup ae m)"
    and "emitted m (cleanup ae m) = (if cursorHidden m then [cursorShow ae] else [])"
  using assms
  by (auto simp add: manager_defs cursor_invariant_def emitted_def)

section \<open>The terminal manager: claims\<close>

text \<open>
  C3. After any sequence of \<open>hideCursor\<close> and \<open>showCursor\<close> calls on a new manager,
  \<open>cleanup\<close> leaves the cursor flag false. It writes exactly one show-cursor sequence
  when, in what the manager has written so far, a hide-cursor sequence is not yet matched
  by a show-cursor sequence, and nothing otherwise; such a hide was written to a TTY
  sink only. \<open>cleanup\<close> is \<open>showCursor\<close>, whatever the state. The hide and the show
  sequence of the escape table are taken to differ.
\<close>

theorem cleanup_restores_cursor:
  assumes "set cs \<subseteq> {HideCursor, ShowCursor}"
    and "cursorHide ae \<noteq> cursorShow ae"
  shows "\<not> cursorHidden (cleanup ae (run ae cs (new_TerminalManager s)))
    \<and> emitted (run ae cs (new_TerminalManager s))
        (cleanup ae (run ae cs (new_TerminalManager s)))
      = (if hide_outstanding ae False
              (emitted (new_TerminalManager s) (run ae cs (new_TerminalManager s)))
         then [cursorShow ae] else [])
    \<and> (hide_outstanding ae False
          (emitted (new_TerminalManager s) (run ae cs (new_TerminalManager s)))
        \<longrightarrow> isTTY s = Some True)
    \<and> cleanup ae (run ae cs (new_TerminalManager s))
      = showCursor ae (run ae cs (new_TerminalManager s))"
proof -
  define m0 where "m0 = new_TerminalManager s"
  define m where "m = run ae cs m0"
  have inv0: "cursor_invariant m0"
    unfolding m0_def by (rule new_cursor_invariant)
  have inv: "cursor_invariant m"
    unfolding m_def using inv0 by (rule run_cursor_invariant)
  have "\<exists>chunks. written (stream m) = written (stream m0) @ chunks
           \<and> cursorHidden m = hide_outstanding ae (cursorHidden m0) chunks"
    unfolding m_def using assms inv0 by (rule cursor_calls_run)
  then obtain chunks where chunks:
    "written (stream m) = written (stream m0) @ chunks"
    "cursorHidden m = hide_outstanding ae (cursorHidden m0) chunks"
    by (elim exE conjE)
  have e: "emitted m0 m = chunks" using chunks(1) by (rule emitted_append)
  have v: "cursorHidden m0 = False" by (simp add: m0_def new_TerminalManager_def)
  have h: "hide_outstanding ae False (emitted m0 m) = cursorHidden m"
    unfolding e using chunks(2) v by simp
  have c1: "\<not> cursorHidden (cleanup ae m)"
    using inv by (rule cleanup_emits(1))
  have c2: "emitted m (cleanup ae m) = (if cursorHidden m then [cursorShow ae] else [])"
    using inv by (rule cleanup_emits(2))
  have c3: "cleanup ae m = showCursor ae m" by (rule cleanup_def)
  have "isTTY (stream m) = isTTY s"
    by (simp add: m_def m0_def run_isTTY new_TerminalManager_def)
  then have c4: "cursorHidden m \<longrightarrow> isTTY s = Some True"
    using inv by (auto simp add: cursor_invariant_def truthy_def split: option.splits)
  have "\<not> cursorHidden (cleanup ae m)
    \<and> emitted m (cleanup ae m)
      = (if hide_outstanding ae False (emitted m0 m) then [cursorShow ae] else [])
    \<and> (hide_outstanding ae False (emitted m0 m) \<longrightarrow> isTTY s = Some True)
    \<and> cleanup ae m = showCursor ae m"
    unfolding h using c1 c2 c3 c4 by (intro conjI)
  then show ?thesis unfolding m_def m0_def .
qed

theorem cleanup_restores_cursor_witness:
  "set [HideCursor, HideCursor, ShowCursor, HideCursor] \<subseteq> {HideCursor, ShowCursor}
   \<and> cursorHide vt100 \<noteq> cursorShow vt100
   \<and> \<not> cursorHidden (cleanup vt100
          (run vt100 [HideCursor, HideCursor, ShowCursor, HideCursor] (new_TerminalManager terminal)))
   \<and> emitted (new_TerminalManager terminal)
        (run vt100 [HideCursor, HideCursor, ShowCursor, HideCursor] (new_TerminalManager terminal))
      = [cursorHide vt100, cursorShow vt100, cursorHide vt100]
   \<and> emitted (run vt100 [HideCursor, HideCursor, ShowCursor, HideCursor] (new_TerminalManager terminal))
        (cleanup vt100
          (run vt100 [HideCursor, HideCursor, ShowCursor, HideCursor] (new_TerminalManager terminal)))
      = [cursorShow vt100]
   \<and> isTTY terminal = Some True"
proof -
  have a: "set [HideCursor, HideCursor, ShowCursor, HideCursor] \<subseteq> {HideCursor, ShowCursor}"
    by simp
  have b: "cursorHide vt100 \<noteq> cursorShow vt100"
    by (simp add: vt100_def CSI_def ascii_def)
  show ?thesis
    using a b cleanup_restores_cursor [OF a b, of terminal]
    by (simp add: manager_defs sample_defs)
qed

text \<open>
  C4. \<open>hideCursor\<close> and \<open>showCursor\<close> are idempotent. On a new manager, one
  \<open>hideCursor\<close> call and two consecutive calls both write the hide-cursor sequence once
  on a TTY sink and nothing on any other sink, so the second call writes nothing. A
  \<open>showCursor\<close> call after the hide writes the show-cursor sequence once on a TTY sink,
  and a further \<open>showCursor\<close> call writes nothing.
\<close>

theorem hideCursor_idempotent:
  "hideCursor ae (hideCursor ae m) = hideCursor ae m
   \<and> showCursor ae (showCursor ae m) = showCursor ae m
   \<and> emitted (new_TerminalManager s) (hideCursor ae (new_TerminalManager s))
       = (if truthy (isTTY s) then [cursorHide ae] else [])
   \<and> emitted (new_TerminalManager s) (hideCursor ae (hideCursor ae (new_TerminalManager s)))
       = (if truthy (isTTY s) then [cursorHide ae] else [])
   \<and> emitted (hideCursor ae (new_TerminalManager s))
         (hideCursor ae (hideCursor ae (new_TerminalManager s))) = []
   \<and> emitted (hideCursor ae (new_TerminalManager s))
         (showCursor ae (hideCursor ae (new_TerminalManager s)))
       = (if truthy (isTTY s) then [cursorShow ae] else [])
   \<and> emitted (showCursor ae (hideCursor ae (new_TerminalManager s)))
         (showCursor ae (showCursor ae (hideCursor ae (new_TerminalManager s)))) = []"
  by (simp add: manager_defs new_TerminalManager_def emitted_def)

text \<open>
  C5. On a sink that is not a TTY, \<open>hideCursor\<close>, \<open>showCursor\<close>, \<open>clearScreen\<close>,
  \<open>clearLine\<close>, \<open>moveUp\<close>, \<open>moveToLineStart\<close> (and \<open>cleanup\<close>) leave the manager and
  its sink as they were: nothing is written. \<open>write\<close> appends its text to the sink,
  on that manager and on any other, whatever the TTY flag.
\<close>

theorem non_TTY_writes_nothing:
  assumes "\<not> truthy (isTTY (stream m))"
  shows "hideCursor ae m = m \<and> showCursor ae m = m \<and> clearScreen_op ae m = m
    \<and> clearLine ae m = m \<and> moveUp ae n m = m \<and> moveToLineStart ae m = m
    \<and> cleanup ae m = m
    \<and> written (stream (write_op text m)) = written (stream m) @ [text]
    \<and> written (stream (write_op text m')) = written (stream m') @ [text]"
  using assms by (simp add: manager_defs)

theorem non_TTY_writes_nothing_witness:
  "\<not> truthy (isTTY (stream (new_TerminalManager pipe)))
   \<and> written (stream (hideCursor vt100 (new_TerminalManager pipe))) = []
   \<and> written (stream (clearScreen_op vt100 (new_TerminalManager pipe))) = []
   \<and> written (stream (moveUp vt100 3 (new_TerminalManager pipe))) = []
   \<and> written (stream (write_op (ascii ''ok'') (new_TerminalManager pipe))) = [ascii ''ok'']
   \<and> written (stream (write_op (ascii ''ok'') (new_TerminalManager terminal))) = [ascii ''ok'']"
proof -
  have a: "\<not> truthy (isTTY (stream (new_TerminalManager pipe)))"
    by (simp add: new_TerminalManager_def pipe_def truthy_def)
  show ?thesis
    using a non_TTY_writes_nothing [OF a, of vt100 3 "ascii ''ok''" "new_TerminalManager terminal"]
    by (simp add: new_TerminalManager_def pipe_def terminal_def)
qed

text \<open>
  C9. No method changes the TTY flag of the sink. The invariant that the cursor flag is
  set on a TTY sink only holds for a new manager and is kept by every method call; so
  after any sequence of calls on a new manager, a set cursor flag means a TTY sink.
\<close>

theorem cursorHidden_only_on_TTY:
  "cursor_invariant (new_TerminalManager s)
   \<and> (cursor_invariant m \<longrightarrow> cursor_invariant (exec ae c m))
   \<and> isTTY (stream (exec ae c m)) = isTTY (stream m)
   \<and> (cursorHidden (run ae cs (new_TerminalManager s)) \<longrightarrow> isTTY s = Some True)"
proof -
  have "cursor_invariant (run ae cs (new_TerminalManager s))"
    by (rule run_cursor_invariant [OF new_cursor_invariant])
  then have "cursorHidden (run ae cs (new_TerminalManager s)) \<longrightarrow> truthy (isTTY s)"
    by (simp add: cursor_invariant_def run_isTTY new_TerminalManager_def)
  then have "cursorHidden (run ae cs (new_TerminalManager s)) \<longrightarrow> isTTY s = Some True"
    by (simp add: truthy_def split: option.splits)
  then show ?thesis
    using new_cursor_invariant exec_cursor_invariant exec_isTTY by blast
qed

theorem cursorHidden_only_on_TTY_witness:
  "cursor_invariant (new_TerminalManager terminal)
   \<and> cursor_invariant (exec vt100 HideCursor (new_TerminalManager terminal))
   \<and> cursorHidden
       (run vt100 [ClearLine, HideCursor, Write (ascii ''x'')] (new_TerminalManager terminal))
   \<and> isTTY terminal = Some True
   \<and> \<not> cursorHidden
       (run vt100 [ClearLine, HideCursor, Write (ascii ''x'')] (new_TerminalManager pipe))"
  using cursorHidden_only_on_TTY [of terminal "new_TerminalManager terminal" vt100 HideCursor
      "[ClearLine, HideCursor, Write (ascii ''x'')]"]
    cursorHidden_only_on_TTY [of pipe "new_TerminalManager pipe" vt100 HideCursor
      "[ClearLine, HideCursor, Write (ascii ''x'')]"]
  by (simp add: manager_defs new_TerminalManager_def terminal_def pipe_def truthy_def)

section \<open>Centred text: auxiliary facts\<close>

lemma String_repeat_space:
  "0 \<le> c \<Longrightarrow> String_repeat (ascii '' '') (Finite c) =
     (if MAX_STRING_LENGTH < nat \<lfloor>c\<rfloor> then Inl RangeError else Inr (spaces (nat \<lfloor>c\<rfloor>)))"
  by (simp add: String_repeat_def ToIntegerOrInfinity_def spaces_def ascii_def
      concat_replicate_single)

lemma spaces_small:
  "spaces 1 = ascii '' ''" "spaces 2 = ascii ''  ''" "spaces 3 = ascii ''   ''"
  by (simp_all add: spaces_def ascii_def numeral_eq_Suc)

lemma half_bounds:
  fixes d :: rat
  assumes "0 < d"
  shows "0 \<le> (of_int \<lfloor>d / 2\<rfloor> :: rat)" and "0 \<le> d - of_int \<lfloor>d / 2\<rfloor>"
proof -
  from assms have "0 \<le> d / 2" by simp
  then have "0 \<le> \<lfloor>d / 2\<rfloor>" by simp
  then show "0 \<le> (of_int \<lfloor>d / 2\<rfloor> :: rat)" by simp
  have "of_int \<lfloor>d / 2\<rfloor> \<le> d / 2" by (rule of_int_floor_le)
  with assms show "0 \<le> d - of_int \<lfloor>d / 2\<rfloor>" by simp
qed

lemma padded_cases:
  "and_then (if MAX_STRING_LENGTH < l then Inl RangeError else Inr (spaces l)) (\<lambda>a.
     and_then (js_concat a text) (\<lambda>lt.
     and_then (if MAX_STRING_LENGTH < r then Inl RangeError else Inr (spaces r)) (\<lambda>b.
     js_concat lt b)))
   = (if MAX_STRING_LENGTH < l + length text + r then Inl RangeError
      else Inr (spaces l @ text @ spaces r))"
  by (simp add: and_then_def js_concat_def spaces_def)

lemma centerText_cases:
  "centerText sw text wid =
     (if of_nat (sw text) \<ge> wid then Inr text
      else if MAX_STRING_LENGTH
           < nat \<lfloor>(wid - of_nat (sw text)) / 2\<rfloor> + length text
             + nat \<lfloor>wid - of_nat (sw text) - of_int \<lfloor>(wid - of_nat (sw text)) / 2\<rfloor>\<rfloor>
        then Inl RangeError
      else Inr (spaces (nat \<lfloor>(wid - of_nat (sw text)) / 2\<rfloor>) @ text
            @ spaces (nat \<lfloor>wid - of_nat (sw text)
                - of_int \<lfloor>(wid - of_nat (sw text)) / 2\<rfloor>\<rfloor>)))"
proof (cases "of_nat (sw text) \<ge> wid")
  case True
  then show ?thesis by (simp add: centerText_def)
next
  case False
  then have d: "0 < wid - of_nat (sw text)" by simp
  have l: "String_repeat (ascii '' '') (Finite (of_int \<lfloor>(wid - of_nat (sw text)) / 2\<rfloor>))
      = (if MAX_STRING_LENGTH < nat \<lfloor>(wid - of_nat (sw text)) / 2\<rfloor> then Inl RangeError
         else Inr (spaces (nat \<lfloor>(wid - of_nat (sw text)) / 2\<rfloor>)))"
    using half_bounds(1) [OF d] by (simp add: String_repeat_space)
  have r: "String_repeat (ascii '' '')
        (Finite (wid - of_nat (sw text) - of_int \<lfloor>(wid - of_nat (sw text)) / 2\<rfloor>))
      = (if MAX_STRING_LENGTH
            < nat \<lfloor>wid - of_nat (sw text) - of_int \<lfloor>(wid - of_nat (sw text)) / 2\<rfloor>\<rfloor>
         then Inl RangeError
         else Inr (spaces (nat \<lfloor>wid - of_nat (sw text)
          - of_int \<lfloor>(wid - of_nat (sw text)) / 2\<rfloor>\<rfloor>)))"
    using half_bounds(2) [OF d] by (rule String_repeat_space)
  show ?thesis
    unfolding centerText_def Let_def l r padded_cases using False by simp
qed

lemma centerText_integer_width:
  "centerText sw text (of_int w) =
     (if int (sw text) \<ge> w then Inr text
      else if MAX_STRING_LENGTH
           < nat ((w - int (sw text)) div 2) + length text
             + nat (w - int (sw text) - (w - int (sw text)) div 2)
        then Inl RangeError
      else Inr (spaces (nat ((w - int (sw text)) div 2)) @ text
            @ spaces (nat (w - int (sw text) - (w - int (sw text)) div 2))))"
proof -
  have a: "(of_int w :: rat) - of_nat (sw text) = of_int (w - int (sw text))" by simp
  have b: "\<lfloor>(of_int (w - int (sw text)) :: rat) / 2\<rfloor> = (w - int (sw text)) div 2"
    using floor_divide_of_int_eq [of "w - int (sw text)" 2, where ?'a = rat] by simp
  have c: "(of_int (w - int (sw text)) :: rat) - of_int ((w - int (sw text)) div 2)
      = of_int (w - int (sw text) - (w - int (sw text)) div 2)" by simp
  have d: "((of_nat (sw text) :: rat) \<ge> of_int w) = (int (sw text) \<ge> w)"
    by (metis of_int_le_iff of_int_of_nat_eq)
  show ?thesis
    unfolding centerText_cases a b c d floor_of_int ..
qed

section \<open>Centred text: claims\<close>

text \<open>
  C8, as amended. For every text and every finite width: if the display width of the
  text is at least the width, \<open>centerText\<close> returns the text unchanged. Otherwise the
  text goes between two runs of spaces, on the left the floor of half the difference of
  width and display width, on the right the rest of that difference (for a width that is
  not an integer, the whole part of the rest, as \<^verbatim>\<open>repeat\<close> truncates its count); when
  that string is longer than the longest string a RangeError is thrown, and else it is
  returned. So \<^verbatim>\<open>hi\<close>, of display width 2, is centred in 6 columns with two spaces on
  each side, and in 7 columns with two on the left and three on the right.
\<close>

theorem centerText_padding:
  "centerText sw text wid =
     (if of_nat (sw text) \<ge> wid then Inr text
      else if MAX_STRING_LENGTH
           < nat \<lfloor>(wid - of_nat (sw text)) / 2\<rfloor> + length text
             + nat \<lfloor>wid - of_nat (sw text) - of_int \<lfloor>(wid - of_nat (sw text)) / 2\<rfloor>\<rfloor>
        then Inl RangeError
      else Inr (spaces (nat \<lfloor>(wid - of_nat (sw text)) / 2\<rfloor>) @ text
            @ spaces (nat \<lfloor>wid - of_nat (sw text)
                - of_int \<lfloor>(wid - of_nat (sw text)) / 2\<rfloor>\<rfloor>)))
   \<and> centerText sw text (of_int w) =
     (if int (sw text) \<ge> w then Inr text
      else if MAX_STRING_LENGTH
           < nat ((w - int (sw text)) div 2) + length text
             + nat (w - int (sw text) - (w - int (sw text)) div 2)
        then Inl RangeError
      else Inr (spaces (nat ((w - int (sw text)) div 2)) @ text
            @ spaces (nat (w - int (sw text) - (w - int (sw text)) div 2))))
   \<and> (sw (ascii ''hi'') = 2 \<longrightarrow>
        centerText sw (ascii ''hi'') 6 = Inr (ascii ''  hi  '')
        \<and> centerText sw (ascii ''hi'') 7 = Inr (ascii ''  hi   ''))"
proof (intro conjI impI)
  assume "sw (ascii ''hi'') = 2"
  then show "centerText sw (ascii ''hi'') 6 = Inr (ascii ''  hi  '')"
    using centerText_integer_width [of sw "ascii ''hi''" 6]
    by (simp add: spaces_small MAX_STRING_LENGTH_def) (simp add: ascii_def)
next
  assume "sw (ascii ''hi'') = 2"
  then show "centerText sw (ascii ''hi'') 7 = Inr (ascii ''  hi   '')"
    using centerText_integer_width [of sw "ascii ''hi''" 7]
    by (simp add: spaces_small MAX_STRING_LENGTH_def) (simp add: ascii_def)
qed (rule centerText_cases centerText_integer_width)+

theorem centerText_padding_witness:
  "length (ascii ''hi'') = 2
   \<and> centerText length (ascii ''hi'') 6 = Inr (ascii ''  hi  '')
   \<and> centerText length (ascii ''hi'') 7 = Inr (ascii ''  hi   '')
   \<and> centerText length (ascii ''hello'') 3 = Inr (ascii ''hello'')"
  using centerText_padding [of length "ascii ''hi''" 6 6]
    centerText_padding [of length "ascii ''hello''" 3 3]
  by (simp add: ascii_def)

text \<open>
  C8 as first stated, a padded string for every width above the display width, fails:
  for \<^verbatim>\<open>hi\<close> and the width \<open>2 ^ 30\<close> the left run alone would be longer than the longest
  string, and \<^verbatim>\<open>repeat\<close> throws.
\<close>

theorem centerText_throws_on_wide:
  "centerText length (ascii ''hi'') (2 ^ 30) = Inl RangeError"
  using centerText_integer_width [of length "ascii ''hi''" "2 ^ 30"]
  by (simp add: ascii_def MAX_STRING_LENGTH_def)




end
